theory Spec2Isabelle
  imports Main "HOL-Library.Word"
begin

section \<open>The GCS2 binding \<open>olive/drivers/pi/wrapper.pyx\<close>\<close>

text \<open>
  The module forwards every operation to one entry point of the vendor's GCS2 library
  and turns the library's return codes into exceptions. The library is closed: it is a
  parameter of the model. Every call the binding makes is recorded in the order it is
  made, so that a statement can say which entry point was reached, with which
  arguments, and how often.
\<close>

subsection \<open>Values\<close>

text \<open>
  A Python \<open>str\<close> is a list of Unicode code points and a \<open>bytes\<close> object a list of
  8-bit characters. C \<open>int\<close> values are only compared and passed on, never computed
  with, so they are integers here. A C \<open>double\<close> is only passed on; it is carried as
  its 64-bit pattern.
\<close>

type_synonym str = "nat list"
type_synonym bytes = "char list"

datatype double = Double "64 word"

datatype ReferenceMode = Absolute | Relative

datatype ReferenceStrategy = ReferenceSwitch | NegativeLimit | PositiveLimit

datatype ServoState = OpenLoop | ClosedLoop

text \<open>The Python objects that the operations receive untyped or return.\<close>

datatype pyobject =
    PyNone
  | PyBool bool
  | PyInt int
  | PyFloat double
  | PyStr str
  | PyReferenceMode ReferenceMode
  | PyReferenceStrategy ReferenceStrategy
  | PyDoubles "double list"
  | PyTuple "pyobject list"

text \<open>
  The exceptions that leave the module. \<open>AssertionError n\<close> is the failed assertion of
  \<open>translate_error\<close>, whose message is \<open>message buffer (n bytes) is too small\<close>.
  \<open>UnicodeEncodeError\<close> is raised by \<open>str.encode('ascii')\<close>, \<open>ValueError_shape n\<close> by
  \<open>view.array\<close> for the dimension \<open>n\<close>, and \<open>ValueError_enum v\<close> by \<open>ReferenceMode(v)\<close>.
\<close>

datatype error =
    RuntimeError str
  | AssertionError int
  | UnicodeEncodeError
  | ValueError_shape int
  | ValueError_enum int

text \<open>A parameter with a default value is \<open>None\<close> when the caller leaves it out.\<close>

definition or_default :: "'a \<Rightarrow> 'a option \<Rightarrow> 'a" where
  "or_default d a = (case a of None \<Rightarrow> d | Some x \<Rightarrow> x)"

subsection \<open>Encoding and decoding\<close>

text \<open>\<open>s.encode('ascii')\<close>: every code point must be below 128.\<close>

definition encode_ascii :: "str \<Rightarrow> error + bytes" where
  "encode_ascii s =
     (if list_all (\<lambda>c. c < 128) s then Inr (map char_of s) else Inl UnicodeEncodeError)"

text \<open>
  A \<open>char *\<close> is read as a C string: up to, and without, the first NUL byte. (Without a
  NUL inside the buffer the C code reads on past its end; the model stops at the end.)
\<close>

definition c_string :: "bytes \<Rightarrow> bytes" where
  "c_string b = takeWhile (\<lambda>c. c \<noteq> CHR 0x00) b"

text \<open>
  \<open>c_buffer.decode('ascii', errors='replace')\<close>: each byte of the C string below 128 is
  its own code point, each other byte becomes U+FFFD.
\<close>

definition decode_ascii_replace :: "bytes \<Rightarrow> str" where
  "decode_ascii_replace b =
     map (\<lambda>c. if (of_char c :: nat) < 128 then of_char c else 0xFFFD) (c_string b)"

text \<open>
  \<open>view.array(shape=(n, ), ...)\<close> refuses a dimension that is not positive with a
  \<open>ValueError\<close>; the storage it allocates otherwise is filled by the native call.
\<close>

definition view_array :: "int \<Rightarrow> error + unit" where
  "view_array n = (if n \<le> 0 then Inl (ValueError_shape n) else Inr ())"

text \<open>\<open>ReferenceMode(mode)\<close>: the member with that value, or a \<open>ValueError\<close>.\<close>

definition ReferenceMode_of_int :: "int \<Rightarrow> error + ReferenceMode" where
  "ReferenceMode_of_int v =
     (if v = 1 then Inr Absolute else if v = 0 then Inr Relative else Inl (ValueError_enum v))"

subsection \<open>The native library\<close>

text \<open>
  One constructor for each entry point of \<open>gcs2\<close> that the module calls, with the
  arguments the call passes by value, in the order of the call. An output buffer is
  represented by the size passed along with it; an output scalar is not an argument.
  The entry points are grouped by the part of the module that calls them.
\<close>

datatype error_call =
    PI_TranslateError int int
  | PI_GetError int

datatype communication_call =
    PI_EnumerateUSB int bytes
  | PI_ConnectUSB bytes
  | PI_ConnectUSBWithBaudRate bytes int
  | PI_TryConnectUSB bytes
  | PI_IsConnecting int
  | PI_GetControllerID int
  | PI_IsConnected int
  | PI_SetDaisyChainScanMaxDeviceID int
  | PI_OpenUSBDaisyChain bytes int
  | PI_ConnectDaisyChainDevice int int
  | PI_CloseDaisyChain int
  | PI_CloseConnection int

datatype controller_call =
    PI_SetErrorCheck int bool
  | PI_IsMoving int bytes
  | PI_IsControllerReady int
  | PI_IsRunningMacro int
  | PI_qSAI_ALL int int
  | PI_qSAI int int
  | PI_StopAll int
  | PI_qHLP int int
  | PI_qIDN int int
  | PI_qHPA int int
  | PI_qTVI int int
  | PI_qVER int int

datatype motion_call =
    PI_qRON int bytes
  | PI_RON int bytes int
  | PI_qFRF int bytes
  | PI_FRF int bytes
  | PI_FNL int bytes
  | PI_FPL int bytes
  | PI_GOH int bytes
  | PI_HLT int bytes
  | PI_qPOS int bytes
  | PI_POS int bytes double
  | PI_MOV int bytes double
  | PI_MVR int bytes double

datatype setting_call =
    PI_qVEL int bytes
  | PI_VEL int bytes double
  | PI_qACC int bytes
  | PI_ACC int bytes double
  | PI_qTMN int bytes
  | PI_qTMX int bytes
  | PI_qCST int bytes int
  | PI_qSPA int bytes nat int
  | PI_qSEP int bytes nat int
  | PI_SPA int bytes nat "double list" bytes
  | PI_SEP int bytes bytes nat "double list" bytes
  | PI_SVO int bytes int

datatype native_call =
    Err error_call
  | Comm communication_call
  | Ctrl controller_call
  | Motion motion_call
  | Setting setting_call

text \<open>
  What a call leaves behind: its return value, and the contents of the output buffer,
  the output integer, the output double and the output array of doubles after the call
  (each operation reads the ones it passed).
\<close>

record response =
  ret :: int
  out_buffer :: bytes
  out_int :: int
  out_double :: double
  out_doubles :: "double list"

text \<open>
  What the program does to the outside, in order: native calls, and the line
  \<open>err_id: n\<close> that \<open>Communication.check_error\<close> prints.
\<close>

datatype event = Call native_call | Print_err_id int

text \<open>
  The library answers a call depending on everything that happened before it (the
  controller's last error, for one, is state of the library).
\<close>

type_synonym native = "event list \<Rightarrow> native_call \<Rightarrow> response"

subsection \<open>Operations as state transformers\<close>

text \<open>
  An operation runs on a world: the object it is called on and the events so far. It
  returns a value or raises, and leaves a world.
\<close>

record 'h world =
  this :: 'h
  events :: "event list"

type_synonym ('h, 'a) action = "'h world \<Rightarrow> (error + 'a) \<times> 'h world"

definition ok :: "'a \<Rightarrow> ('h, 'a) action" where
  "ok x w = (Inr x, w)"

definition raise :: "error \<Rightarrow> ('h, 'a) action" where
  "raise e w = (Inl e, w)"

definition seq :: "('h, 'a) action \<Rightarrow> ('a \<Rightarrow> ('h, 'b) action) \<Rightarrow> ('h, 'b) action" where
  "seq m f w = (case m w of (Inl e, w') \<Rightarrow> (Inl e, w') | (Inr x, w') \<Rightarrow> f x w')"

definition lift :: "error + 'a \<Rightarrow> ('h, 'a) action" where
  "lift r w = (r, w)"

definition self :: "('h, 'h) action" where
  "self w = (Inr (this w), w)"

definition call :: "native \<Rightarrow> native_call \<Rightarrow> ('h, response) action" where
  "call N c w = (Inr (N (events w) c), w\<lparr>events := events w @ [Call c]\<rparr>)"

definition print_err_id :: "int \<Rightarrow> ('h, unit) action" where
  "print_err_id n w = (Inr (), w\<lparr>events := events w @ [Print_err_id n]\<rparr>)"

definition assert :: "bool \<Rightarrow> error \<Rightarrow> ('h, unit) action" where
  "assert b e = (if b then ok () else raise e)"

subsection \<open>\<open>translate_error\<close>\<close>

definition translate_error :: "native \<Rightarrow> int \<Rightarrow> int option \<Rightarrow> ('h, str) action" where
  "translate_error N err_id nbytes_arg =
     (let nbytes = or_default 1024 nbytes_arg in
      seq (lift (view_array nbytes)) (\<lambda>_.
      seq (call N (Err (PI_TranslateError err_id nbytes))) (\<lambda>r.
      seq (assert (ret r > 0) (AssertionError nbytes)) (\<lambda>_.
      ok (decode_ascii_replace (out_buffer r))))))"

subsection \<open>\<open>Communication\<close>\<close>

definition Communication_check_error :: "native \<Rightarrow> int \<Rightarrow> ('h, unit) action" where
  "Communication_check_error N r =
     (if r < 0 then
        seq (print_err_id r) (\<lambda>_.
        seq (translate_error N r None) (\<lambda>msg.
        raise (RuntimeError msg)))
      else ok ())"

definition enumerate_usb :: "native \<Rightarrow> str option \<Rightarrow> int option \<Rightarrow> ('h, str) action" where
  "enumerate_usb N keyword_arg nbytes_arg =
     (let keyword = or_default [] keyword_arg; nbytes = or_default 1024 nbytes_arg in
      seq (lift (view_array nbytes)) (\<lambda>_.
      seq (lift (encode_ascii keyword)) (\<lambda>b_keyword.
      seq (call N (Comm (PI_EnumerateUSB nbytes b_keyword))) (\<lambda>r.
      seq (Communication_check_error N (ret r)) (\<lambda>_.
      ok (decode_ascii_replace (out_buffer r)))))))"

definition connect_usb :: "native \<Rightarrow> str \<Rightarrow> int option \<Rightarrow> ('h, int) action" where
  "connect_usb N desc baudrate_arg =
     (let baudrate = or_default (- 1) baudrate_arg in
      seq (lift (encode_ascii desc)) (\<lambda>b_desc.
      seq (if baudrate < 0 then call N (Comm (PI_ConnectUSB b_desc))
           else call N (Comm (PI_ConnectUSBWithBaudRate b_desc baudrate))) (\<lambda>r.
      seq (Communication_check_error N (ret r)) (\<lambda>_.
      ok (ret r)))))"

definition try_connect_usb :: "native \<Rightarrow> str \<Rightarrow> ('h, int) action" where
  "try_connect_usb N desc =
     seq (lift (encode_ascii desc)) (\<lambda>b_desc.
     seq (call N (Comm (PI_TryConnectUSB b_desc))) (\<lambda>r.
     seq (Communication_check_error N (ret r)) (\<lambda>_.
     ok (ret r))))"

definition is_connecting :: "native \<Rightarrow> int \<Rightarrow> ('h, bool) action" where
  "is_connecting N thread_id =
     seq (call N (Comm (PI_IsConnecting thread_id))) (\<lambda>r.
     seq (Communication_check_error N (ret r)) (\<lambda>_.
     ok (out_int r > 0)))"

definition get_controller_id :: "native \<Rightarrow> int \<Rightarrow> ('h, int) action" where
  "get_controller_id N thread_id =
     seq (call N (Comm (PI_GetControllerID thread_id))) (\<lambda>r.
     seq (Communication_check_error N (ret r)) (\<lambda>_.
     ok (ret r)))"

definition is_connected :: "native \<Rightarrow> int \<Rightarrow> ('h, bool) action" where
  "is_connected N cid =
     seq (call N (Comm (PI_IsConnected cid))) (\<lambda>r.
     ok (ret r > 0))"

definition set_daisy_chain_scan_max_device_id :: "native \<Rightarrow> int \<Rightarrow> ('h, unit) action" where
  "set_daisy_chain_scan_max_device_id N max_id =
     seq (call N (Comm (PI_SetDaisyChainScanMaxDeviceID max_id))) (\<lambda>r.
     Communication_check_error N (ret r))"

definition open_usb_daisy_chain ::
  "native \<Rightarrow> str \<Rightarrow> int option \<Rightarrow> ('h, int \<times> int \<times> str) action" where
  "open_usb_daisy_chain N desc nbytes_arg =
     (let nbytes = or_default 1024 nbytes_arg in
      seq (lift (view_array nbytes)) (\<lambda>_.
      seq (lift (encode_ascii desc)) (\<lambda>b_desc.
      seq (call N (Comm (PI_OpenUSBDaisyChain b_desc nbytes))) (\<lambda>r.
      seq (Communication_check_error N (ret r)) (\<lambda>_.
      ok (ret r, out_int r, decode_ascii_replace (out_buffer r)))))))"

definition connect_daisy_chain_device :: "native \<Rightarrow> int \<Rightarrow> int \<Rightarrow> ('h, int) action" where
  "connect_daisy_chain_device N daisy_id index =
     seq (call N (Comm (PI_ConnectDaisyChainDevice daisy_id index))) (\<lambda>r.
     seq (Communication_check_error N (ret r)) (\<lambda>_.
     ok (ret r)))"

text \<open>
  \<open>daisy_id\<close> is declared without a type and converted to a C \<open>int\<close> at the call; the
  model takes the identifiers that the conversion accepts.
\<close>

definition close_daisy_chain :: "native \<Rightarrow> int \<Rightarrow> ('h, unit) action" where
  "close_daisy_chain N daisy_id =
     seq (call N (Comm (PI_CloseDaisyChain daisy_id))) (\<lambda>_.
     ok ())"

definition close_connection :: "native \<Rightarrow> int \<Rightarrow> ('h, unit) action" where
  "close_connection N cid =
     seq (call N (Comm (PI_CloseConnection cid))) (\<lambda>_.
     ok ())"

subsection \<open>\<open>ControllerCommand\<close>\<close>

record ControllerCommand =
  ctrl_id :: int

definition ControllerCommand_cinit :: "int \<Rightarrow> ControllerCommand" where
  "ControllerCommand_cinit cid = \<lparr>ctrl_id = cid\<rparr>"

definition check_error :: "native \<Rightarrow> int \<Rightarrow> ('a ControllerCommand_scheme, unit) action" where
  "check_error N r =
     (if r > 0 then ok ()
      else
        seq self (\<lambda>s.
        seq (call N (Err (PI_GetError (ctrl_id s)))) (\<lambda>e.
        seq (translate_error N (ret e) None) (\<lambda>msg.
        raise (RuntimeError msg)))))"

definition set_error_check :: "native \<Rightarrow> bool \<Rightarrow> ('a ControllerCommand_scheme, unit) action" where
  "set_error_check N err_check =
     seq self (\<lambda>s.
     seq (call N (Ctrl (PI_SetErrorCheck (ctrl_id s) err_check))) (\<lambda>_.
     ok ()))"

definition is_moving :: "native \<Rightarrow> str option \<Rightarrow> ('a ControllerCommand_scheme, bool) action" where
  "is_moving N axes_arg =
     (let axes = or_default [] axes_arg in
      seq (lift (encode_ascii axes)) (\<lambda>b_axes.
      seq self (\<lambda>s.
      seq (call N (Ctrl (PI_IsMoving (ctrl_id s) b_axes))) (\<lambda>r.
      seq (check_error N (ret r)) (\<lambda>_.
      ok (out_int r > 0))))))"

definition is_controller_ready :: "native \<Rightarrow> ('a ControllerCommand_scheme, bool) action" where
  "is_controller_ready N =
     seq self (\<lambda>s.
     seq (call N (Ctrl (PI_IsControllerReady (ctrl_id s)))) (\<lambda>r.
     seq (check_error N (ret r)) (\<lambda>_.
     ok (out_int r > 0))))"

definition is_running_macro :: "native \<Rightarrow> ('a ControllerCommand_scheme, bool) action" where
  "is_running_macro N =
     seq self (\<lambda>s.
     seq (call N (Ctrl (PI_IsRunningMacro (ctrl_id s)))) (\<lambda>r.
     seq (check_error N (ret r)) (\<lambda>_.
     ok (out_int r > 0))))"

text \<open>The two bodies below are \<open>pass\<close>: the operations return \<open>None\<close>.\<close>

definition get_axes_enable_status :: "native \<Rightarrow> str \<Rightarrow> ('a ControllerCommand_scheme, unit) action" where
  "get_axes_enable_status N axes = ok ()"

definition set_axes_enable_status ::
  "native \<Rightarrow> str \<Rightarrow> bool \<Rightarrow> ('a ControllerCommand_scheme, unit) action" where
  "set_axes_enable_status N axes state = ok ()"

definition get_axes_id ::
  "native \<Rightarrow> bool option \<Rightarrow> int option \<Rightarrow> ('a ControllerCommand_scheme, str) action" where
  "get_axes_id N include_deactivated_arg nbytes_arg =
     (let include_deactivated = or_default True include_deactivated_arg;
          nbytes = or_default 512 nbytes_arg in
      seq (lift (view_array nbytes)) (\<lambda>_.
      seq self (\<lambda>s.
      seq (if include_deactivated then call N (Ctrl (PI_qSAI_ALL (ctrl_id s) nbytes))
           else call N (Ctrl (PI_qSAI (ctrl_id s) nbytes))) (\<lambda>r.
      seq (check_error N (ret r)) (\<lambda>_.
      ok (decode_ascii_replace (out_buffer r)))))))"

definition stop_all :: "native \<Rightarrow> ('a ControllerCommand_scheme, unit) action" where
  "stop_all N =
     seq self (\<lambda>s.
     seq (call N (Ctrl (PI_StopAll (ctrl_id s)))) (\<lambda>r.
     check_error N (ret r)))"

definition get_available_commands ::
  "native \<Rightarrow> int option \<Rightarrow> ('a ControllerCommand_scheme, str) action" where
  "get_available_commands N nbytes_arg =
     (let nbytes = or_default 512 nbytes_arg in
      seq (lift (view_array nbytes)) (\<lambda>_.
      seq self (\<lambda>s.
      seq (call N (Ctrl (PI_qHLP (ctrl_id s) nbytes))) (\<lambda>r.
      seq (check_error N (ret r)) (\<lambda>_.
      ok (decode_ascii_replace (out_buffer r)))))))"

definition get_identification_string ::
  "native \<Rightarrow> int option \<Rightarrow> ('a ControllerCommand_scheme, str) action" where
  "get_identification_string N nbytes_arg =
     (let nbytes = or_default 256 nbytes_arg in
      seq (lift (view_array nbytes)) (\<lambda>_.
      seq self (\<lambda>s.
      seq (call N (Ctrl (PI_qIDN (ctrl_id s) nbytes))) (\<lambda>r.
      seq (check_error N (ret r)) (\<lambda>_.
      ok (decode_ascii_replace (out_buffer r)))))))"

definition get_available_parameters ::
  "native \<Rightarrow> int option \<Rightarrow> ('a ControllerCommand_scheme, str) action" where
  "get_available_parameters N nbytes_arg =
     (let nbytes = or_default 512 nbytes_arg in
      seq (lift (view_array nbytes)) (\<lambda>_.
      seq self (\<lambda>s.
      seq (call N (Ctrl (PI_qHPA (ctrl_id s) nbytes))) (\<lambda>r.
      seq (check_error N (ret r)) (\<lambda>_.
      ok (decode_ascii_replace (out_buffer r)))))))"

definition get_valid_character_set ::
  "native \<Rightarrow> int option \<Rightarrow> ('a ControllerCommand_scheme, str) action" where
  "get_valid_character_set N nbytes_arg =
     (let nbytes = or_default 512 nbytes_arg in
      seq (lift (view_array nbytes)) (\<lambda>_.
      seq self (\<lambda>s.
      seq (call N (Ctrl (PI_qTVI (ctrl_id s) nbytes))) (\<lambda>r.
      seq (check_error N (ret r)) (\<lambda>_.
      ok (decode_ascii_replace (out_buffer r)))))))"

definition get_version :: "native \<Rightarrow> int option \<Rightarrow> ('a ControllerCommand_scheme, str) action" where
  "get_version N nbytes_arg =
     (let nbytes = or_default 512 nbytes_arg in
      seq (lift (view_array nbytes)) (\<lambda>_.
      seq self (\<lambda>s.
      seq (call N (Ctrl (PI_qVER (ctrl_id s) nbytes))) (\<lambda>r.
      seq (check_error N (ret r)) (\<lambda>_.
      ok (decode_ascii_replace (out_buffer r)))))))"

subsection \<open>\<open>AxisCommand\<close>\<close>

text \<open>The class extends \<open>ControllerCommand\<close> by the axis identifier.\<close>

record AxisCommand = ControllerCommand +
  axis_id :: bytes


definition get_reference_mode :: "native \<Rightarrow> (AxisCommand, ReferenceMode) action" where
  "get_reference_mode N =
     seq self (\<lambda>s.
     seq (call N (Motion (PI_qRON (ctrl_id s) (axis_id s)))) (\<lambda>r.
     seq (check_error N (ret r)) (\<lambda>_.
     lift (ReferenceMode_of_int (out_int r)))))"

definition set_reference_mode :: "native \<Rightarrow> int \<Rightarrow> (AxisCommand, unit) action" where
  "set_reference_mode N mode =
     seq self (\<lambda>s.
     seq (call N (Motion (PI_RON (ctrl_id s) (axis_id s) mode))) (\<lambda>r.
     check_error N (ret r)))"

definition is_referenced :: "native \<Rightarrow> (AxisCommand, bool) action" where
  "is_referenced N =
     seq self (\<lambda>s.
     seq (call N (Motion (PI_qFRF (ctrl_id s) (axis_id s)))) (\<lambda>r.
     seq (check_error N (ret r)) (\<lambda>_.
     ok (out_int r > 0))))"

text \<open>
  \<open>strategy\<close> is an untyped parameter: any object may arrive. \<open>find_reference\<close> is the
  \<open>if\<close>/\<open>elif\<close> chain that computes \<open>ret\<close>: three comparisons, each with its native
  call, and a last branch that sets \<open>ret = 0\<close> without a call.
\<close>

definition find_reference :: "native \<Rightarrow> pyobject \<Rightarrow> (AxisCommand, int) action" where
  "find_reference N strategy =
     seq self (\<lambda>s.
     if strategy = PyReferenceStrategy ReferenceSwitch then
       seq (call N (Motion (PI_FRF (ctrl_id s) (axis_id s)))) (\<lambda>r. ok (ret r))
     else if strategy = PyReferenceStrategy NegativeLimit then
       seq (call N (Motion (PI_FNL (ctrl_id s) (axis_id s)))) (\<lambda>r. ok (ret r))
     else if strategy = PyReferenceStrategy PositiveLimit then
       seq (call N (Motion (PI_FPL (ctrl_id s) (axis_id s)))) (\<lambda>r. ok (ret r))
     else ok 0)"

definition start_reference_movement :: "native \<Rightarrow> pyobject option \<Rightarrow> (AxisCommand, unit) action" where
  "start_reference_movement N strategy_arg =
     (let strategy = or_default (PyReferenceStrategy ReferenceSwitch) strategy_arg in
      seq (find_reference N strategy) (\<lambda>r.
      check_error N r))"

definition go_to_home :: "native \<Rightarrow> (AxisCommand, unit) action" where
  "go_to_home N =
     seq self (\<lambda>s.
     seq (call N (Motion (PI_GOH (ctrl_id s) (axis_id s)))) (\<lambda>r.
     check_error N (ret r)))"

definition halt :: "native \<Rightarrow> str option \<Rightarrow> (AxisCommand, unit) action" where
  "halt N axis_arg =
     (let axis = or_default [] axis_arg in
      seq self (\<lambda>s.
      seq (call N (Motion (PI_HLT (ctrl_id s) (axis_id s)))) (\<lambda>r.
      check_error N (ret r))))"

definition get_current_position :: "native \<Rightarrow> (AxisCommand, double) action" where
  "get_current_position N =
     seq self (\<lambda>s.
     seq (call N (Motion (PI_qPOS (ctrl_id s) (axis_id s)))) (\<lambda>r.
     seq (check_error N (ret r)) (\<lambda>_.
     ok (out_double r))))"

definition set_current_position :: "native \<Rightarrow> double \<Rightarrow> (AxisCommand, unit) action" where
  "set_current_position N v =
     seq self (\<lambda>s.
     seq (call N (Motion (PI_POS (ctrl_id s) (axis_id s) v))) (\<lambda>r.
     check_error N (ret r)))"

definition set_target_position :: "native \<Rightarrow> double \<Rightarrow> (AxisCommand, unit) action" where
  "set_target_position N v =
     seq self (\<lambda>s.
     seq (call N (Motion (PI_MOV (ctrl_id s) (axis_id s) v))) (\<lambda>r.
     check_error N (ret r)))"

definition set_relative_target_position :: "native \<Rightarrow> double \<Rightarrow> (AxisCommand, unit) action" where
  "set_relative_target_position N v =
     seq self (\<lambda>s.
     seq (call N (Motion (PI_MVR (ctrl_id s) (axis_id s) v))) (\<lambda>r.
     check_error N (ret r)))"

definition get_velocity :: "native \<Rightarrow> (AxisCommand, double) action" where
  "get_velocity N =
     seq self (\<lambda>s.
     seq (call N (Setting (PI_qVEL (ctrl_id s) (axis_id s)))) (\<lambda>r.
     seq (check_error N (ret r)) (\<lambda>_.
     ok (out_double r))))"

definition set_velocity :: "native \<Rightarrow> double \<Rightarrow> (AxisCommand, unit) action" where
  "set_velocity N vel =
     seq self (\<lambda>s.
     seq (call N (Setting (PI_VEL (ctrl_id s) (axis_id s) vel))) (\<lambda>r.
     check_error N (ret r)))"

definition get_acceleration :: "native \<Rightarrow> (AxisCommand, double) action" where
  "get_acceleration N =
     seq self (\<lambda>s.
     seq (call N (Setting (PI_qACC (ctrl_id s) (axis_id s)))) (\<lambda>r.
     seq (check_error N (ret r)) (\<lambda>_.
     ok (out_double r))))"

definition set_acceleration :: "native \<Rightarrow> double \<Rightarrow> (AxisCommand, unit) action" where
  "set_acceleration N acc =
     seq self (\<lambda>s.
     seq (call N (Setting (PI_ACC (ctrl_id s) (axis_id s) acc))) (\<lambda>r.
     check_error N (ret r)))"

definition get_travel_range_min :: "native \<Rightarrow> (AxisCommand, double) action" where
  "get_travel_range_min N =
     seq self (\<lambda>s.
     seq (call N (Setting (PI_qTMN (ctrl_id s) (axis_id s)))) (\<lambda>r.
     seq (check_error N (ret r)) (\<lambda>_.
     ok (out_double r))))"

definition get_travel_range_max :: "native \<Rightarrow> (AxisCommand, double) action" where
  "get_travel_range_max N =
     seq self (\<lambda>s.
     seq (call N (Setting (PI_qTMX (ctrl_id s) (axis_id s)))) (\<lambda>r.
     seq (check_error N (ret r)) (\<lambda>_.
     ok (out_double r))))"

definition get_stage_type :: "native \<Rightarrow> int option \<Rightarrow> (AxisCommand, str) action" where
  "get_stage_type N nbytes_arg =
     (let nbytes = or_default 512 nbytes_arg in
      seq (lift (view_array nbytes)) (\<lambda>_.
      seq self (\<lambda>s.
      seq (call N (Setting (PI_qCST (ctrl_id s) (axis_id s) nbytes))) (\<lambda>r.
      seq (check_error N (ret r)) (\<lambda>_.
      ok (decode_ascii_replace (out_buffer r)))))))"

text \<open>
  \<open>get_parameter\<close> allocates the array of \<open>nelem\<close> values, then the buffer of \<open>nbytes\<close>
  bytes, and returns the array as the call left it together with the decoded buffer.
\<close>

definition get_parameter ::
  "native \<Rightarrow> nat \<Rightarrow> bool option \<Rightarrow> int option \<Rightarrow> int option
     \<Rightarrow> (AxisCommand, double list \<times> str) action" where
  "get_parameter N parameter volatile_arg nelem_arg nbytes_arg =
     (let volatile = or_default False volatile_arg;
          nelem = or_default 1 nelem_arg;
          nbytes = or_default 64 nbytes_arg in
      seq self (\<lambda>s.
      seq (lift (view_array nelem)) (\<lambda>_.
      seq (lift (view_array nbytes)) (\<lambda>_.
      seq (if volatile then
             call N (Setting (PI_qSPA (ctrl_id s) (axis_id s) parameter nbytes))
           else
             call N (Setting (PI_qSEP (ctrl_id s) (axis_id s) parameter nbytes))) (\<lambda>r.
      seq (check_error N (ret r)) (\<lambda>_.
      ok (out_doubles r, decode_ascii_replace (out_buffer r))))))))"

text \<open>The \<open>str\<close> literal \<open>"100"\<close> of \<open>set_parameter\<close>, as code points.\<close>

definition str_100 :: str where
  "str_100 = [49, 48, 48]"

definition set_parameter ::
  "native \<Rightarrow> nat \<Rightarrow> double list \<Rightarrow> str \<Rightarrow> bool option \<Rightarrow> int option
     \<Rightarrow> (AxisCommand, unit) action" where
  "set_parameter N parameter vals string volatile_arg nbytes_arg =
     (let volatile = or_default False volatile_arg;
          nbytes = or_default 64 nbytes_arg in
      seq self (\<lambda>s.
      seq (lift (encode_ascii string)) (\<lambda>b_string.
      seq (if volatile then
             call N (Setting (PI_SPA (ctrl_id s) (axis_id s) parameter vals b_string))
           else
             seq (lift (encode_ascii str_100)) (\<lambda>group.
             call N (Setting (PI_SEP (ctrl_id s) group (axis_id s) parameter vals b_string)))) (\<lambda>r.
      check_error N (ret r)))))"

definition set_servo_state :: "native \<Rightarrow> int \<Rightarrow> (AxisCommand, unit) action" where
  "set_servo_state N state =
     seq self (\<lambda>s.
     seq (call N (Setting (PI_SVO (ctrl_id s) (axis_id s) state))) (\<lambda>r.
     check_error N (ret r)))"

subsection \<open>Calling an operation by name\<close>

text \<open>
  \<open>obj.name(args)\<close> for every operation of a class, with the value it returns as a
  Python object. A statement about every operation of a class ranges over these.
\<close>

definition returning :: "('a \<Rightarrow> pyobject) \<Rightarrow> ('h, 'a) action \<Rightarrow> ('h, pyobject) action" where
  "returning f m = seq m (\<lambda>x. ok (f x))"

datatype Communication_method =
    Enumerate_usb "str option" "int option"
  | Connect_usb str "int option"
  | Try_connect_usb str
  | Is_connecting int
  | Get_controller_id int
  | Is_connected int
  | Set_daisy_chain_scan_max_device_id int
  | Open_usb_daisy_chain str "int option"
  | Connect_daisy_chain_device int int
  | Close_daisy_chain int
  | Close_connection int

fun Communication_invoke :: "native \<Rightarrow> Communication_method \<Rightarrow> (unit, pyobject) action" where
  "Communication_invoke N (Enumerate_usb keyword nbytes) =
     returning PyStr (enumerate_usb N keyword nbytes)"
| "Communication_invoke N (Connect_usb desc baudrate) =
     returning PyInt (connect_usb N desc baudrate)"
| "Communication_invoke N (Try_connect_usb desc) =
     returning PyInt (try_connect_usb N desc)"
| "Communication_invoke N (Is_connecting thread_id) =
     returning PyBool (is_connecting N thread_id)"
| "Communication_invoke N (Get_controller_id thread_id) =
     returning PyInt (get_controller_id N thread_id)"
| "Communication_invoke N (Is_connected cid) =
     returning PyBool (is_connected N cid)"
| "Communication_invoke N (Set_daisy_chain_scan_max_device_id max_id) =
     returning (\<lambda>_. PyNone) (set_daisy_chain_scan_max_device_id N max_id)"
| "Communication_invoke N (Open_usb_daisy_chain desc nbytes) =
     returning (\<lambda>(r, n_dev, idn). PyTuple [PyInt r, PyInt n_dev, PyStr idn])
       (open_usb_daisy_chain N desc nbytes)"
| "Communication_invoke N (Connect_daisy_chain_device daisy_id index) =
     returning PyInt (connect_daisy_chain_device N daisy_id index)"
| "Communication_invoke N (Close_daisy_chain daisy_id) =
     returning (\<lambda>_. PyNone) (close_daisy_chain N daisy_id)"
| "Communication_invoke N (Close_connection cid) =
     returning (\<lambda>_. PyNone) (close_connection N cid)"

datatype ControllerCommand_method =
    Set_error_check bool
  | Is_moving "str option"
  | Is_controller_ready
  | Is_running_macro
  | Get_axes_enable_status str
  | Set_axes_enable_status str bool
  | Get_axes_id "bool option" "int option"
  | Stop_all
  | Get_available_commands "int option"
  | Get_identification_string "int option"
  | Get_available_parameters "int option"
  | Get_valid_character_set "int option"
  | Get_version "int option"

fun ControllerCommand_invoke ::
  "native \<Rightarrow> ControllerCommand_method \<Rightarrow> ('a ControllerCommand_scheme, pyobject) action" where
  "ControllerCommand_invoke N (Set_error_check err_check) =
     returning (\<lambda>_. PyNone) (set_error_check N err_check)"
| "ControllerCommand_invoke N (Is_moving axes) =
     returning PyBool (is_moving N axes)"
| "ControllerCommand_invoke N Is_controller_ready =
     returning PyBool (is_controller_ready N)"
| "ControllerCommand_invoke N Is_running_macro =
     returning PyBool (is_running_macro N)"
| "ControllerCommand_invoke N (Get_axes_enable_status axes) =
     returning (\<lambda>_. PyNone) (get_axes_enable_status N axes)"
| "ControllerCommand_invoke N (Set_axes_enable_status axes state) =
     returning (\<lambda>_. PyNone) (set_axes_enable_status N axes state)"
| "ControllerCommand_invoke N (Get_axes_id include_deactivated nbytes) =
     returning PyStr (get_axes_id N include_deactivated nbytes)"
| "ControllerCommand_invoke N Stop_all =
     returning (\<lambda>_. PyNone) (stop_all N)"
| "ControllerCommand_invoke N (Get_available_commands nbytes) =
     returning PyStr (get_available_commands N nbytes)"
| "ControllerCommand_invoke N (Get_identification_string nbytes) =
     returning PyStr (get_identification_string N nbytes)"
| "ControllerCommand_invoke N (Get_available_parameters nbytes) =
     returning PyStr (get_available_parameters N nbytes)"
| "ControllerCommand_invoke N (Get_valid_character_set nbytes) =
     returning PyStr (get_valid_character_set N nbytes)"
| "ControllerCommand_invoke N (Get_version nbytes) =
     returning PyStr (get_version N nbytes)"

datatype AxisCommand_method =
    Get_reference_mode
  | Set_reference_mode int
  | Is_referenced
  | Start_reference_movement "pyobject option"
  | Go_to_home
  | Halt "str option"
  | Get_current_position
  | Set_current_position double
  | Set_target_position double
  | Set_relative_target_position double
  | Get_velocity
  | Set_velocity double
  | Get_acceleration
  | Set_acceleration double
  | Get_travel_range_min
  | Get_travel_range_max
  | Get_stage_type "int option"
  | Get_parameter nat "bool option" "int option" "int option"
  | Set_parameter nat "double list" str "bool option" "int option"
  | Set_servo_state int

fun AxisCommand_invoke :: "native \<Rightarrow> AxisCommand_method \<Rightarrow> (AxisCommand, pyobject) action" where
  "AxisCommand_invoke N Get_reference_mode =
     returning PyReferenceMode (get_reference_mode N)"
| "AxisCommand_invoke N (Set_reference_mode mode) =
     returning (\<lambda>_. PyNone) (set_reference_mode N mode)"
| "AxisCommand_invoke N Is_referenced =
     returning PyBool (is_referenced N)"
| "AxisCommand_invoke N (Start_reference_movement strategy) =
     returning (\<lambda>_. PyNone) (start_reference_movement N strategy)"
| "AxisCommand_invoke N Go_to_home =
     returning (\<lambda>_. PyNone) (go_to_home N)"
| "AxisCommand_invoke N (Halt axis) =
     returning (\<lambda>_. PyNone) (halt N axis)"
| "AxisCommand_invoke N Get_current_position =
     returning PyFloat (get_current_position N)"
| "AxisCommand_invoke N (Set_current_position v) =
     returning (\<lambda>_. PyNone) (set_current_position N v)"
| "AxisCommand_invoke N (Set_target_position v) =
     returning (\<lambda>_. PyNone) (set_target_position N v)"
| "AxisCommand_invoke N (Set_relative_target_position v) =
     returning (\<lambda>_. PyNone) (set_relative_target_position N v)"
| "AxisCommand_invoke N Get_velocity =
     returning PyFloat (get_velocity N)"
| "AxisCommand_invoke N (Set_velocity vel) =
     returning (\<lambda>_. PyNone) (set_velocity N vel)"
| "AxisCommand_invoke N Get_acceleration =
     returning PyFloat (get_acceleration N)"
| "AxisCommand_invoke N (Set_acceleration acc) =
     returning (\<lambda>_. PyNone) (set_acceleration N acc)"
| "AxisCommand_invoke N Get_travel_range_min =
     returning PyFloat (get_travel_range_min N)"
| "AxisCommand_invoke N Get_travel_range_max =
     returning PyFloat (get_travel_range_max N)"
| "AxisCommand_invoke N (Get_stage_type nbytes) =
     returning PyStr (get_stage_type N nbytes)"
| "AxisCommand_invoke N (Get_parameter parameter volatile nelem nbytes) =
     returning (\<lambda>(vals, string). PyTuple [PyDoubles vals, PyStr string])
       (get_parameter N parameter volatile nelem nbytes)"
| "AxisCommand_invoke N (Set_parameter parameter vals string volatile nbytes) =
     returning (\<lambda>_. PyNone) (set_parameter N parameter vals string volatile nbytes)"
| "AxisCommand_invoke N (Set_servo_state state) =
     returning (\<lambda>_. PyNone) (set_servo_state N state)"

subsection \<open>Observing a run\<close>

text \<open>The events that a run from \<open>w\<close> to \<open>w'\<close> added.\<close>

definition issued :: "'h world \<Rightarrow> 'h world \<Rightarrow> event list" where
  "issued w w' = drop (length (events w)) (events w')"

text \<open>
  The two library calls of the failure branch of \<open>ControllerCommand.check_error\<close>, made
  after the events \<open>tr\<close> on the controller \<open>cid\<close>: the last-error query, and the
  translation of the code it returned into a buffer of the default size.
\<close>

definition last_error :: "native \<Rightarrow> int \<Rightarrow> event list \<Rightarrow> int" where
  "last_error N cid tr = ret (N tr (Err (PI_GetError cid)))"

definition error_queries :: "native \<Rightarrow> int \<Rightarrow> event list \<Rightarrow> event list" where
  "error_queries N cid tr =
     [Call (Err (PI_GetError cid)), Call (Err (PI_TranslateError (last_error N cid tr) 1024))]"

text \<open>
  The events of a command \<open>c\<close> issued after \<open>tr\<close> whose return value goes through
  \<open>ControllerCommand.check_error\<close>.
\<close>

definition checked_command :: "native \<Rightarrow> int \<Rightarrow> event list \<Rightarrow> native_call \<Rightarrow> event list" where
  "checked_command N cid tr c =
     Call c # (if 0 < ret (N tr c) then [] else error_queries N cid (tr @ [Call c]))"

text \<open>
  What \<open>raise RuntimeError(translate_error(code))\<close> raises when the library answers the
  translation request with \<open>r\<close>: the error with the translated message, or the failed
  assertion of \<open>translate_error\<close>.
\<close>

definition raised_for :: "response \<Rightarrow> error" where
  "raised_for r =
     (if 0 < ret r then RuntimeError (decode_ascii_replace (out_buffer r))
      else AssertionError 1024)"



text \<open>
  The direct protocol of the communication operations: a negative return of the
  command \<open>c\<close> is printed and translated itself; any other return ends the run.
\<close>

definition direct_protocol ::
  "native \<Rightarrow> event list \<Rightarrow> native_call \<Rightarrow> event list \<Rightarrow> error + pyobject \<Rightarrow> bool" where
  "direct_protocol N tr c rest res =
     (if ret (N tr c) < 0 then
        rest = [Print_err_id (ret (N tr c)), Call (Err (PI_TranslateError (ret (N tr c)) 1024))] \<and>
        res = Inl (raised_for (N (tr @ [Call c, Print_err_id (ret (N tr c))])
                     (Err (PI_TranslateError (ret (N tr c)) 1024))))
      else
        rest = [] \<and> (case res of Inr v \<Rightarrow> True | Inl e \<Rightarrow> False))"


text \<open>The axis identifier that a native call passes, when it is an axis-scoped call.\<close>

fun motion_axis :: "motion_call \<Rightarrow> bytes" where
  "motion_axis (PI_qRON cid a) = a"
| "motion_axis (PI_RON cid a mode) = a"
| "motion_axis (PI_qFRF cid a) = a"
| "motion_axis (PI_FRF cid a) = a"
| "motion_axis (PI_FNL cid a) = a"
| "motion_axis (PI_FPL cid a) = a"
| "motion_axis (PI_GOH cid a) = a"
| "motion_axis (PI_HLT cid a) = a"
| "motion_axis (PI_qPOS cid a) = a"
| "motion_axis (PI_POS cid a v) = a"
| "motion_axis (PI_MOV cid a v) = a"
| "motion_axis (PI_MVR cid a v) = a"

fun setting_axis :: "setting_call \<Rightarrow> bytes" where
  "setting_axis (PI_qVEL cid a) = a"
| "setting_axis (PI_VEL cid a v) = a"
| "setting_axis (PI_qACC cid a) = a"
| "setting_axis (PI_ACC cid a v) = a"
| "setting_axis (PI_qTMN cid a) = a"
| "setting_axis (PI_qTMX cid a) = a"
| "setting_axis (PI_qCST cid a n) = a"
| "setting_axis (PI_qSPA cid a p n) = a"
| "setting_axis (PI_qSEP cid a p n) = a"
| "setting_axis (PI_SPA cid a p vs b) = a"
| "setting_axis (PI_SEP cid g a p vs b) = a"
| "setting_axis (PI_SVO cid a st) = a"

fun passes_axis :: "bytes \<Rightarrow> event \<Rightarrow> bool" where
  "passes_axis a (Call (Motion c)) = (motion_axis c = a)"
| "passes_axis a (Call (Setting c)) = (setting_axis c = a)"
| "passes_axis a ev = True"



subsection \<open>A scripted library for the examples\<close>

text \<open>
  \<open>library cmd tr n\<close> answers every command with the return value \<open>cmd\<close>, the text
  \<open>OK\<close> and the output integer \<open>n\<close>; it reports 7 as the last error, and answers
  a translation request with the return value \<open>tr\<close> and the text \<open>E7\<close>.
\<close>

definition reply :: "int \<Rightarrow> bytes \<Rightarrow> int \<Rightarrow> response" where
  "reply r b n =
     \<lparr>ret = r, out_buffer = b, out_int = n, out_double = Double 0, out_doubles = [Double 0]\<rparr>"

fun library :: "int \<Rightarrow> int \<Rightarrow> int \<Rightarrow> native" where
  "library cmd tr n h (Err (PI_GetError cid)) = reply 7 [] 0"
| "library cmd tr n h (Err (PI_TranslateError e nbytes)) = reply tr [CHR ''E'', CHR ''7'', CHR 0x00] 0"
| "library cmd tr n h c = reply cmd [CHR ''O'', CHR ''K'', CHR 0x00] n"

definition nobody :: "unit world" where
  "nobody = \<lparr>this = (), events = []\<rparr>"

definition axis_1 :: "AxisCommand world" where
  "axis_1 = \<lparr>this = \<lparr>ctrl_id = 3, axis_id = [CHR ''1'']\<rparr>, events = []\<rparr>"

section \<open>Properties\<close>

subsection \<open>How the building blocks run\<close>

lemmas monad_defs = ok_def raise_def seq_def lift_def self_def call_def print_err_id_def
  assert_def returning_def

lemmas Communication_defs = enumerate_usb_def connect_usb_def try_connect_usb_def
  is_connecting_def get_controller_id_def is_connected_def
  set_daisy_chain_scan_max_device_id_def open_usb_daisy_chain_def
  connect_daisy_chain_device_def close_daisy_chain_def close_connection_def



lemmas example_defs = nobody_def axis_1_def reply_def raised_for_def last_error_def
  error_queries_def checked_command_def decode_ascii_replace_def c_string_def

lemma issued_append [simp]: "issued w (w\<lparr>events := events w @ evs\<rparr>) = evs"
  by (simp add: issued_def)

lemma issued_same [simp]: "issued w w = []"
  by (simp add: issued_def)

text \<open>The decoded text is as long as the C string, and made of ASCII and U+FFFD only.\<close>

lemma length_decode_ascii_replace: "length (decode_ascii_replace b) = length (c_string b)"
  by (simp add: decode_ascii_replace_def)

lemma decode_ascii_replace_range:
  "list_all (\<lambda>c. c < 128 \<or> c = 0xFFFD) (decode_ascii_replace b)"
  by (auto simp add: decode_ascii_replace_def list_all_iff)

lemma c_string_no_NUL: "CHR 0x00 \<notin> set (c_string b)"
  unfolding c_string_def by (induction b) auto


lemma encode_ascii_d: "encode_ascii [100] = Inr [CHR ''d'']"
  by code_simp



lemma translate_error_run:
  "translate_error N e nb w =
     (if or_default 1024 nb \<le> 0 then (Inl (ValueError_shape (or_default 1024 nb)), w)
      else (if 0 < ret (N (events w) (Err (PI_TranslateError e (or_default 1024 nb))))
            then Inr (decode_ascii_replace
                   (out_buffer (N (events w) (Err (PI_TranslateError e (or_default 1024 nb))))))
            else Inl (AssertionError (or_default 1024 nb)),
            w\<lparr>events := events w @ [Call (Err (PI_TranslateError e (or_default 1024 nb)))]\<rparr>))"
  by (simp add: translate_error_def monad_defs view_array_def Let_def)

lemma check_error_run:
  "check_error N r w =
     (if 0 < r then (Inr (), w)
      else (Inl (raised_for (N (events w @ [Call (Err (PI_GetError (ctrl_id (this w))))])
                   (Err (PI_TranslateError (last_error N (ctrl_id (this w)) (events w)) 1024)))),
            w\<lparr>events := events w @ error_queries N (ctrl_id (this w)) (events w)\<rparr>))"
  by (simp add: check_error_def translate_error_run monad_defs or_default_def Let_def
      raised_for_def last_error_def error_queries_def)

lemma Communication_check_error_run:
  "Communication_check_error N r w =
     (if r < 0 then
        (Inl (raised_for (N (events w @ [Print_err_id r]) (Err (PI_TranslateError r 1024)))),
         w\<lparr>events := events w @ [Print_err_id r, Call (Err (PI_TranslateError r 1024))]\<rparr>)
      else (Inr (), w))"
  by (simp add: Communication_check_error_def translate_error_run monad_defs or_default_def
      raised_for_def)

lemma find_reference_run:
  "find_reference N st w =
     (if st = PyReferenceStrategy ReferenceSwitch then
        (Inr (ret (N (events w) (Motion (PI_FRF (ctrl_id (this w)) (axis_id (this w)))))),
         w\<lparr>events := events w @ [Call (Motion (PI_FRF (ctrl_id (this w)) (axis_id (this w))))]\<rparr>)
      else if st = PyReferenceStrategy NegativeLimit then
        (Inr (ret (N (events w) (Motion (PI_FNL (ctrl_id (this w)) (axis_id (this w)))))),
         w\<lparr>events := events w @ [Call (Motion (PI_FNL (ctrl_id (this w)) (axis_id (this w))))]\<rparr>)
      else if st = PyReferenceStrategy PositiveLimit then
        (Inr (ret (N (events w) (Motion (PI_FPL (ctrl_id (this w)) (axis_id (this w)))))),
         w\<lparr>events := events w @ [Call (Motion (PI_FPL (ctrl_id (this w)) (axis_id (this w))))]\<rparr>)
      else (Inr 0, w))"
  by (simp add: find_reference_def monad_defs)

subsection \<open>The error protocol of the controller and axis operations\<close>






subsection \<open>The error protocol of the communication operations\<close>

text \<open>
  Claim C2, as the code has it. Take an operation of \<open>Communication\<close> other than
  \<open>is_connected\<close>, \<open>close_daisy_chain\<close> and \<open>close_connection\<close> that reaches its native
  call \<open>c\<close>. When the return code is not negative the run ends there and the operation
  returns. When it is negative, the code is printed and translated into 1024 bytes,
  and the operation raises: the \<open>RuntimeError\<close> with the translated message of that
  return code when the translation returns a positive value, the \<open>AssertionError\<close> of
  \<open>translate_error\<close> otherwise.
\<close>

theorem communication_error_protocol:
  assumes "Communication_invoke N m w = (res, w')"
    and "\<forall>cid. m \<noteq> Is_connected cid"
    and "\<forall>d. m \<noteq> Close_daisy_chain d"
    and "\<forall>cid. m \<noteq> Close_connection cid"
    and "issued w w' = Call c # rest"
  shows "direct_protocol N (events w) c rest res"
  using assms
  by (cases m)
     (auto simp add: Communication_defs monad_defs Communication_check_error_run Let_def
        view_array_def encode_ascii_def direct_protocol_def split: if_splits)

theorem communication_error_protocol_witness:
  "Communication_invoke (library (- 1) 1 0) (Connect_usb [100] None) nobody =
     (Inl (RuntimeError [69, 55]),
      nobody\<lparr>events := [Call (Comm (PI_ConnectUSB [CHR ''d''])), Print_err_id (- 1),
                         Call (Err (PI_TranslateError (- 1) 1024))]\<rparr>)
   \<and> direct_protocol (library (- 1) 1 0) [] (Comm (PI_ConnectUSB [CHR ''d'']))
       [Print_err_id (- 1), Call (Err (PI_TranslateError (- 1) 1024))]
       (Inl (RuntimeError [69, 55]))"
proof -
  let ?c = "Comm (PI_ConnectUSB [CHR ''d''])"
  let ?q = "[Print_err_id (- 1), Call (Err (PI_TranslateError (- 1) 1024))]"
  let ?r = "Inl (RuntimeError [69, 55]) :: error + pyobject"
  have run: "Communication_invoke (library (- 1) 1 0) (Connect_usb [100] None) nobody =
      (?r, nobody\<lparr>events := Call ?c # ?q\<rparr>)"
    by (simp add: connect_usb_def monad_defs Communication_check_error_run example_defs
        encode_ascii_d or_default_def Let_def)
  have iss: "issued nobody (nobody\<lparr>events := Call ?c # ?q\<rparr>) = Call ?c # ?q"
    by (simp add: issued_def nobody_def)
  have "direct_protocol (library (- 1) 1 0) (events nobody) ?c ?q ?r"
    using communication_error_protocol [OF run _ _ _ iss] by simp
  then show ?thesis
    using run by (simp add: nobody_def)
qed

text \<open>
  The claim as it is written fails where the library cannot translate the code: the
  negative return of \<open>PI_ConnectUSB\<close> then ends in the assertion of \<open>translate_error\<close>,
  an error that carries no translation.
\<close>

theorem translation_may_fail_counterexample:
  "ret (library (- 1) 0 0 [] (Comm (PI_ConnectUSB [CHR ''d'']))) < 0
   \<and> Communication_invoke (library (- 1) 0 0) (Connect_usb [100] None) nobody =
     (Inl (AssertionError 1024),
      nobody\<lparr>events := [Call (Comm (PI_ConnectUSB [CHR ''d''])), Print_err_id (- 1),
                         Call (Err (PI_TranslateError (- 1) 1024))]\<rparr>)"
  by (simp add: connect_usb_def monad_defs Communication_check_error_run example_defs
      encode_ascii_d or_default_def Let_def)

subsection \<open>Reference movements\<close>

text \<open>
  Claim C3, as the code has it. For every strategy value that is not one of
  \<open>ReferenceSwitch\<close>, \<open>NegativeLimit\<close> and \<open>PositiveLimit\<close>, the dispatch of
  \<open>start_reference_movement\<close> issues no native call and sets the return code to 0;
  \<open>check_error\<close> takes 0 for a failure, so the operation queries \<open>PI_GetError(ctrl_id)\<close>,
  has that code translated into 1024 bytes, and raises: the \<open>RuntimeError\<close> with the
  translated message when the translation returns a positive value, the
  \<open>AssertionError\<close> of \<open>translate_error\<close> otherwise.
\<close>

theorem unrecognized_strategy_raises:
  assumes "st \<noteq> PyReferenceStrategy ReferenceSwitch"
    and "st \<noteq> PyReferenceStrategy NegativeLimit"
    and "st \<noteq> PyReferenceStrategy PositiveLimit"
  shows "find_reference N st w = (Inr 0, w)
    \<and> start_reference_movement N (Some st) w =
       (Inl (raised_for (N (events w @ [Call (Err (PI_GetError (ctrl_id (this w))))])
                 (Err (PI_TranslateError (last_error N (ctrl_id (this w)) (events w)) 1024)))),
        w\<lparr>events := events w @ error_queries N (ctrl_id (this w)) (events w)\<rparr>)"
  using assms
  by (simp add: start_reference_movement_def find_reference_run seq_def check_error_run
      or_default_def)

theorem unrecognized_strategy_raises_witness:
  "PyNone \<noteq> PyReferenceStrategy ReferenceSwitch
   \<and> PyNone \<noteq> PyReferenceStrategy NegativeLimit
   \<and> PyNone \<noteq> PyReferenceStrategy PositiveLimit
   \<and> find_reference (library 1 1 1) PyNone axis_1 = (Inr 0, axis_1)
   \<and> start_reference_movement (library 1 1 1) (Some PyNone) axis_1 =
       (Inl (RuntimeError [69, 55]),
        axis_1\<lparr>events := [Call (Err (PI_GetError 3)), Call (Err (PI_TranslateError 7 1024))]\<rparr>)"
  using unrecognized_strategy_raises [of PyNone "library 1 1 1" axis_1]
  by (simp add: example_defs)

text \<open>
  The claim as it is written fails: with the integer 4 for a strategy, and a library
  that answers every call with success, the operation raises.
\<close>

theorem unrecognized_strategy_counterexample:
  "AxisCommand_invoke (library 1 1 1) (Start_reference_movement (Some (PyInt 4))) axis_1 =
     (Inl (RuntimeError [69, 55]),
      axis_1\<lparr>events := [Call (Err (PI_GetError 3)), Call (Err (PI_TranslateError 7 1024))]\<rparr>)"
  by (simp add: start_reference_movement_def find_reference_run seq_def check_error_run
      or_default_def returning_def example_defs)


subsection \<open>The error translator\<close>




subsection \<open>Parameters\<close>






subsection \<open>Operations without an error check\<close>


text \<open>
  Claim C8, as the code has it. For every argument, \<open>get_axes_enable_status\<close> and
  \<open>set_axes_enable_status\<close> return \<open>None\<close>: they make no native call and raise nothing.
\<close>

theorem axes_enable_status_stubs:
  "get_axes_enable_status N axes w = (Inr (), w)
   \<and> set_axes_enable_status N axes state w = (Inr (), w)"
  by (simp add: get_axes_enable_status_def set_axes_enable_status_def ok_def)

text \<open>The claim as it is written fails: neither operation raises.\<close>

theorem axes_enable_status_counterexample:
  "ControllerCommand_invoke (library 1 1 1) (Get_axes_enable_status [49]) axis_1
     = (Inr PyNone, axis_1)
   \<and> ControllerCommand_invoke (library 1 1 1) (Set_axes_enable_status [49] True) axis_1
     = (Inr PyNone, axis_1)"
  by (simp add: get_axes_enable_status_def set_axes_enable_status_def monad_defs)

subsection \<open>The axis identifier\<close>







text \<open>
  Claim C10. The \<open>axis\<close> argument of \<open>halt\<close> is never read: for any two values of it,
  the default among them, \<open>halt\<close> does the same from the same state, and its first
  event is the call \<open>PI_HLT\<close> on the handle's controller and stored axis identifier.
\<close>

theorem halt_ignores_axis:
  "halt N axis w = halt N axis' w
   \<and> take 1 (issued w (snd (halt N axis w)))
       = [Call (Motion (PI_HLT (ctrl_id (this w)) (axis_id (this w))))]
   \<and> list_all (passes_axis (axis_id (this w))) (issued w (snd (halt N axis w)))"
  by (simp add: halt_def monad_defs check_error_run Let_def error_queries_def)

end
